theory Spec2Isabelle
  imports Complex_Main "HOL-Library.Sublist"
begin

section \<open>Speech capture: the hook \<open>useWebSpeechRecognition\<close>\<close>

text \<open>
  The hook's React state and its two refs are one record. \<open>error\<close> is \<open>null\<close> or a
  message string; \<open>finalTranscriptRef\<close> is the ref that accumulates final text between
  result events; \<open>lang\<close> is \<open>recognitionRef.current.lang\<close>.
\<close>

record capture =
  isListening :: bool
  transcript :: string
  interimTranscript :: string
  error :: "string option"
  isSupported :: bool
  finalTranscriptRef :: string
  lang :: string

text \<open>
  One entry of \<open>event.results\<close>: the transcript of its alternative 0
  (\<open>results[i][0].transcript\<close>; the recogniser is configured with
  \<open>maxAlternatives = 1\<close>) and its \<open>isFinal\<close> flag.
\<close>

record speech_result =
  alt0 :: string
  isFinal :: bool

record result_event =
  resultIndex :: nat
  results :: "speech_result list"

text \<open>
  The \<open>for\<close> loop of \<open>recognition.onresult\<close>, from \<open>i\<close> up to \<open>results.length\<close>, on
  the two local accumulators \<open>finalTranscript\<close> and \<open>interimTranscript\<close>.
\<close>

function onresult_loop :: "speech_result list \<Rightarrow> nat \<Rightarrow> string \<times> string \<Rightarrow> string \<times> string" where
  "onresult_loop rs i (fin, intr) =
     (if i < length rs then
        (if isFinal (rs ! i)
         then onresult_loop rs (Suc i) (fin @ alt0 (rs ! i), intr)
         else onresult_loop rs (Suc i) (fin, intr @ alt0 (rs ! i)))
      else (fin, intr))"
  by pat_completeness auto
termination
  by (relation "measure (\<lambda>(rs, i, acc). length rs - i)") auto

declare onresult_loop.simps [simp del]

definition onresult :: "result_event \<Rightarrow> capture \<Rightarrow> capture" where
  "onresult ev s =
     (case onresult_loop (results ev) (resultIndex ev) (finalTranscriptRef s, '''') of
        (fin, intr) \<Rightarrow>
          s\<lparr>finalTranscriptRef := fin, transcript := fin, interimTranscript := intr\<rparr>)"

text \<open>
  \<open>recognition.onerror\<close>: the raw code is stored first, listening is cleared, then the
  \<open>switch\<close> overwrites the error with a user-facing message.
\<close>

definition onerror :: "string \<Rightarrow> capture \<Rightarrow> capture" where
  "onerror code s =
     (let s1 = s\<lparr>error := Some code\<rparr>;
          s2 = s1\<lparr>isListening := False\<rparr>
      in if code = ''no-speech'' then
           s2\<lparr>error := Some ''No speech detected. Please try again.''\<rparr>
         else if code = ''audio-capture'' then
           s2\<lparr>error := Some ''Microphone access denied or not available.''\<rparr>
         else if code = ''not-allowed'' then
           s2\<lparr>error := Some ''Microphone permission denied. Please allow microphone access.''\<rparr>
         else if code = ''network'' then
           s2\<lparr>error := Some ''Network error. Please check your internet connection.''\<rparr>
         else
           s2\<lparr>error := Some (''Speech recognition error: '' @ code)\<rparr>)"

definition onstart :: "capture \<Rightarrow> capture" where
  "onstart s = s\<lparr>isListening := True, error := None\<rparr>"

definition onend :: "capture \<Rightarrow> capture" where
  "onend s = s\<lparr>isListening := False\<rparr>"

definition onnomatch :: "capture \<Rightarrow> capture" where
  "onnomatch s = s\<lparr>error := Some ''Could not understand the speech. Please try again.''\<rparr>"

text \<open>
  \<open>startListening(language)\<close>. \<open>startThrows\<close> says whether the platform's
  \<open>recognition.start()\<close> throws; the resets before it are kept, as in the source, and the
  \<open>catch\<close> stores its message. \<open>isListening\<close> itself is set later, by \<open>onstart\<close>.
\<close>

definition startListening :: "string \<Rightarrow> bool \<Rightarrow> capture \<Rightarrow> capture" where
  "startListening language startThrows s =
     (if \<not> isSupported s then s\<lparr>error := Some ''Speech recognition not supported''\<rparr>
      else if isListening s then s
      else
        (let s1 = s\<lparr>finalTranscriptRef := '''', transcript := '''',
                     interimTranscript := '''', error := None\<rparr>;
             s2 = s1\<lparr>lang := language\<rparr>
         in if startThrows then s2\<lparr>error := Some ''Failed to start speech recognition''\<rparr>
            else s2))"

definition resetTranscript :: "capture \<Rightarrow> capture" where
  "resetTranscript s =
     s\<lparr>finalTranscriptRef := '''', transcript := '''', interimTranscript := '''', error := None\<rparr>"

text \<open>
  The segments one result event delivers: the entries from \<open>resultIndex\<close> on, split by
  their \<open>isFinal\<close> flag, in the order of the list.
\<close>

definition finalSegments :: "result_event \<Rightarrow> string list" where
  "finalSegments ev = map alt0 (filter isFinal (drop (resultIndex ev) (results ev)))"

definition interimSegments :: "result_event \<Rightarrow> string list" where
  "interimSegments ev =
     map alt0 (filter (\<lambda>r. \<not> isFinal r) (drop (resultIndex ev) (results ev)))"

text \<open>A capture session's result events, handled one after the other.\<close>

fun onresults :: "result_event list \<Rightarrow> capture \<Rightarrow> capture" where
  "onresults [] s = s"
| "onresults (ev # evs) s = onresults evs (onresult ev s)"

text \<open>
  The error kinds of the capture side, and the table from platform error codes to them.
\<close>

datatype ErrorKind =
  Unsupported | NoSpeech | AudioCaptureDenied | PermissionDenied | Network | Other

text \<open>The table as the specification words it.\<close>

definition spec_errorKind :: "string \<Rightarrow> ErrorKind" where
  "spec_errorKind code =
     (if code = ''no-speech'' then NoSpeech
      else if code = ''audio-capture'' then AudioCaptureDenied
      else if code = ''not-allowed'' then PermissionDenied
      else if code = ''network'' then Network
      else Other)"

text \<open>
  The hook stores a message, not a kind. This reads the kind back from the messages the
  hook can store: the four fixed messages of \<open>onerror\<close>, the two "not supported" messages
  (of the mount effect and of \<open>startListening\<close>), and everything else.
\<close>

definition kindOfMessage :: "string \<Rightarrow> ErrorKind" where
  "kindOfMessage m =
     (if m = ''No speech detected. Please try again.'' then NoSpeech
      else if m = ''Microphone access denied or not available.'' then AudioCaptureDenied
      else if m = ''Microphone permission denied. Please allow microphone access.''
        then PermissionDenied
      else if m = ''Network error. Please check your internet connection.'' then Network
      else if m = ''Speech recognition not supported'' then Unsupported
      else if m = ''Speech recognition not supported in this browser. Please use Chrome, Edge, or Safari.''
        then Unsupported
      else Other)"

section \<open>Text to speech: the hooks \<open>useEnhancedTextToSpeech\<close> and \<open>useTextToSpeech\<close>\<close>

subsection \<open>The platform and the hook state\<close>

text \<open>A voice of \<open>speechSynthesis.getVoices()\<close>: its \<open>name\<close> and its \<open>lang\<close>.\<close>

record voice =
  voiceName :: string
  voiceLang :: string

text \<open>
  A \<open>SpeechSynthesisUtterance\<close>. A new one has the platform's defaults (no language, rate,
  pitch and volume 1, no voice); \<open>uVoice = None\<close> is the platform default voice. The
  handlers a hook attaches to it are the transitions \<open>utterance_onend\<close> and
  \<open>utterance_onerror\<close> below.
\<close>

record utterance =
  uText :: string
  uLang :: string
  uRate :: real
  uPitch :: real
  uVolume :: real
  uVoice :: "voice option"

definition newUtterance :: "string \<Rightarrow> utterance" where
  "newUtterance t =
     \<lparr>uText = t, uLang = '''', uRate = 1, uPitch = 1, uVolume = 1, uVoice = None\<rparr>"

text \<open>An \<open>Audio\<close> element: the object URL it was made from, and whether it is playing.\<close>

record audio =
  audioUrl :: nat
  playing :: bool

text \<open>
  The hook state (\<open>isSpeaking\<close>, \<open>error\<close>, \<open>audioRef\<close>) and the part of the browser it acts
  on. \<open>audioRef\<close> is an index into \<open>audios\<close>, the elements created so far, or \<open>None\<close> for
  \<open>null\<close>; \<open>objectUrls\<close> are the URLs created by \<open>URL.createObjectURL\<close> and not revoked
  since; \<open>hasSpeechSynthesis\<close> is \<open>'speechSynthesis' in window\<close>; \<open>synthQueue\<close> is the
  platform's queue of utterances, the first being spoken. \<open>useTextToSpeech\<close> has no
  error state and leaves \<open>ttsError\<close> alone.
\<close>

record tts =
  isSpeaking :: bool
  ttsError :: "string option"
  audioRef :: "nat option"
  audios :: "audio list"
  objectUrls :: "nat list"
  urlCounter :: nat
  hasSpeechSynthesis :: bool
  voices :: "voice list"
  synthQueue :: "utterance list"

text \<open>
  What the outside world answers during one call of \<open>speak\<close>: the backend's answer to
  the render request (rejected, or a response with its \<open>ok\<close> flag and its body: not
  JSON, the JSON value \<open>null\<close>, or a JSON object with its \<open>audio_content\<close>, \<open>None\<close> when
  absent), whether \<open>atob\<close> throws on the payload, and whether the promise of
  \<open>audio.play()\<close> rejects. The backend is opaque: its answer is given, whatever text and
  language code the request carries.
\<close>

datatype json_body = JsonError | JsonNull | JsonOk "string option"

datatype fetch_result = FetchRejected | FetchResponse bool json_body

record call_env =
  fetchResult :: fetch_result
  atobThrows :: bool
  playRejects :: bool

datatype js_error =
  JsError string | JsTypeError string | JsSyntaxError string | JsDOMException string

fun message :: "js_error \<Rightarrow> string" where
  "message (JsError m) = m"
| "message (JsTypeError m) = m"
| "message (JsSyntaxError m) = m"
| "message (JsDOMException m) = m"

text \<open>
  How a block of statements ends: it runs to its end, it leaves the function by
  \<open>return\<close>, or it throws. An \<open>async\<close> function's promise rejects exactly when its body
  throws.
\<close>

datatype completion = Normal | Return | Throw js_error

fun resolved :: "completion \<Rightarrow> bool" where
  "resolved (Throw err) = False"
| "resolved Normal = True"
| "resolved Return = True"

definition try_catch ::
    "completion \<times> tts \<Rightarrow> (js_error \<Rightarrow> tts \<Rightarrow> completion \<times> tts) \<Rightarrow> completion \<times> tts" where
  "try_catch body handler =
     (case fst body of Throw err \<Rightarrow> handler err (snd body) | Normal \<Rightarrow> body | Return \<Rightarrow> body)"

text \<open>Statements after a block run only when the block ran to its end.\<close>

definition and_then ::
    "completion \<times> tts \<Rightarrow> (tts \<Rightarrow> completion \<times> tts) \<Rightarrow> completion \<times> tts" where
  "and_then body rest =
     (case fst body of Normal \<Rightarrow> rest (snd body) | Return \<Rightarrow> body | Throw err \<Rightarrow> body)"

text \<open>JavaScript's truthiness of \<open>result.audio_content\<close>: absent and empty are falsy.\<close>

fun truthy :: "string option \<Rightarrow> bool" where
  "truthy None = False"
| "truthy (Some c) = (c \<noteq> [])"

definition startsWith :: "string \<Rightarrow> string \<Rightarrow> bool" where
  "startsWith s p = prefix p s"

definition includes_str :: "string \<Rightarrow> string \<Rightarrow> bool" where
  "includes_str s p = sublist p s"

definition pause :: "nat \<Rightarrow> tts \<Rightarrow> tts" where
  "pause a s =
     (if a < length (audios s)
      then s\<lparr>audios := (audios s)[a := (audios s ! a)\<lparr>playing := False\<rparr>]\<rparr>
      else s)"

definition revokeObjectURL :: "nat \<Rightarrow> tts \<Rightarrow> tts" where
  "revokeObjectURL u s = s\<lparr>objectUrls := removeAll u (objectUrls s)\<rparr>"

text \<open>
  The statements both hooks run on a decoded payload: \<open>URL.createObjectURL\<close>,
  \<open>new Audio\<close>, \<open>audioRef.current = audio\<close>, then \<open>await audio.play()\<close>. Nothing is done to
  the element \<open>audioRef\<close> held before.
\<close>

definition playBackendAudio :: "call_env \<Rightarrow> tts \<Rightarrow> completion \<times> tts" where
  "playBackendAudio e s =
     (let audioUrl = urlCounter s;
          s1 = s\<lparr>objectUrls := objectUrls s @ [audioUrl], urlCounter := Suc audioUrl\<rparr>;
          a = length (audios s1);
          s2 = s1\<lparr>audios := audios s1 @ [\<lparr>audioUrl = audioUrl, playing = False\<rparr>]\<rparr>;
          s3 = s2\<lparr>audioRef := Some a\<rparr>
      in if playRejects e then (Throw (JsDOMException ''NotAllowedError''), s3)
         else (Normal, s3\<lparr>audios := (audios s3)[a := \<lparr>audioUrl = audioUrl, playing = True\<rparr>]\<rparr>))"

subsection \<open>\<open>useEnhancedTextToSpeech\<close>\<close>

text \<open>
  An argument of a call: left out (\<open>undefined\<close>), \<open>null\<close>, or a value. A default
  parameter replaces \<open>undefined\<close> only.
\<close>

datatype 'a js_arg = ArgUndefined | ArgNull | ArgValue 'a

text \<open>
  The \<open>options\<close> object: each field may be omitted (\<open>None\<close>). The resolved request holds
  the locals the destructuring binds.
\<close>

record speak_options =
  languageCode :: "string option"
  rate :: "real option"
  pitch :: "real option"
  volume :: "real option"
  useBackend :: "bool option"

record speech_request =
  reqLanguageCode :: string
  reqRate :: real
  reqPitch :: real
  reqVolume :: real
  reqUseBackend :: bool

text \<open>
  The default parameter \<open>options = {}\<close> and the destructuring with its defaults. The
  pattern cannot be matched against \<open>null\<close>: that throws a \<open>TypeError\<close>.
\<close>

definition destructure :: "speak_options js_arg \<Rightarrow> js_error + speech_request" where
  "destructure options =
     (case (case options of
              ArgUndefined \<Rightarrow> ArgValue \<lparr>languageCode = None, rate = None, pitch = None,
                                        volume = None, useBackend = None\<rparr>
            | ArgNull \<Rightarrow> ArgNull
            | ArgValue given \<Rightarrow> ArgValue given) of
        ArgValue opts \<Rightarrow>
          Inr \<lparr>reqLanguageCode = (case languageCode opts of None \<Rightarrow> ''en-US'' | Some l \<Rightarrow> l),
               reqRate = (case rate opts of None \<Rightarrow> 0.8 | Some x \<Rightarrow> x),
               reqPitch = (case pitch opts of None \<Rightarrow> 1.0 | Some x \<Rightarrow> x),
               reqVolume = (case volume opts of None \<Rightarrow> 1.0 | Some x \<Rightarrow> x),
               reqUseBackend = (case useBackend opts of None \<Rightarrow> True | Some b \<Rightarrow> b)\<rparr>
      | ArgNull \<Rightarrow> Inl (JsTypeError ''Cannot destructure property of null'')
      | ArgUndefined \<Rightarrow> Inl (JsTypeError ''Cannot destructure property of undefined''))"

text \<open>The body of the inner \<open>try\<close>: the render call and the playback of its payload.\<close>

definition backendTTS :: "string \<Rightarrow> string \<Rightarrow> call_env \<Rightarrow> tts \<Rightarrow> completion \<times> tts" where
  "backendTTS t lc e s =
     (case fetchResult e of
        FetchRejected \<Rightarrow> (Throw (JsTypeError ''Failed to fetch''), s)
      | FetchResponse ok body \<Rightarrow>
          if ok then
            (case body of
               JsonError \<Rightarrow> (Throw (JsSyntaxError ''Unexpected token''), s)
             | JsonNull \<Rightarrow> (Throw (JsTypeError ''Cannot read properties of null''), s)
             | JsonOk audio_content \<Rightarrow>
                 if truthy audio_content then
                   (if atobThrows e then (Throw (JsDOMException ''InvalidCharacterError''), s)
                    else and_then (playBackendAudio e s) (\<lambda>s'. (Return, s')))
                 else (Normal, s))
          else (Normal, s))"

text \<open>The inner \<open>try\<close> statement: its \<open>catch\<close> only logs a warning.\<close>

definition tryBackendTTS :: "string \<Rightarrow> string \<Rightarrow> call_env \<Rightarrow> tts \<Rightarrow> completion \<times> tts" where
  "tryBackendTTS t lc e s =
     try_catch (backendTTS t lc e s) (\<lambda>backendError s'. (Normal, s'))"

definition preferredVoice :: "voice list \<Rightarrow> string \<Rightarrow> voice option" where
  "preferredVoice vs lc =
     (case find (\<lambda>v. startsWith (voiceLang v) (take 2 lc) \<and> includes_str (voiceName v) ''Google'') vs of
        Some v \<Rightarrow> Some v
      | None \<Rightarrow> find (\<lambda>v. startsWith (voiceLang v) (take 2 lc)) vs)"

text \<open>The fallback block: the browser's speech synthesis, or a throw when it is absent.\<close>

definition browserSynthesis :: "string \<Rightarrow> speech_request \<Rightarrow> tts \<Rightarrow> completion \<times> tts" where
  "browserSynthesis t r s =
     (if hasSpeechSynthesis s then
        (let u0 = newUtterance t;
             u1 = u0\<lparr>uLang := reqLanguageCode r, uRate := reqRate r,
                     uPitch := reqPitch r, uVolume := reqVolume r\<rparr>;
             u2 = (case preferredVoice (voices s) (reqLanguageCode r) of
                     Some v \<Rightarrow> u1\<lparr>uVoice := Some v\<rparr>
                   | None \<Rightarrow> u1)
         in (Normal, s\<lparr>synthQueue := synthQueue s @ [u2]\<rparr>))
      else (Throw (JsError ''Text-to-speech not supported in this browser''), s))"

text \<open>
  The outer \<open>try\<close> statement of \<open>speak\<close>, on the locals \<open>r\<close> of the destructuring; its
  \<open>catch\<close> stores the message and clears the flag.
\<close>

definition speakBody :: "string \<Rightarrow> speech_request \<Rightarrow> call_env \<Rightarrow> tts \<Rightarrow> completion \<times> tts" where
  "speakBody t r e s =
     try_catch
       (let s1 = s\<lparr>isSpeaking := True\<rparr>;
            s2 = s1\<lparr>ttsError := None\<rparr>
        in and_then
             (if reqUseBackend r then tryBackendTTS t (reqLanguageCode r) e s2
              else (Normal, s2))
             (browserSynthesis t r))
       (\<lambda>err s'. (Normal, (s'\<lparr>ttsError := Some (message err)\<rparr>)\<lparr>isSpeaking := False\<rparr>))"

text \<open>
  \<open>speak(text, options)\<close>. The destructuring comes first, outside the \<open>try\<close>: when it
  throws, nothing catches it and nothing has been done to the state. The call is taken
  in one step, from its start to the settling of its promise: the answers it awaits are
  those of the \<open>call_env\<close>, and no other handler runs in between.
\<close>

definition speak :: "string \<Rightarrow> speak_options js_arg \<Rightarrow> call_env \<Rightarrow> tts \<Rightarrow> completion \<times> tts" where
  "speak t options e s =
     (case destructure options of
        Inl err \<Rightarrow> (Throw err, s)
      | Inr r \<Rightarrow> speakBody t r e s)"

definition stopSpeaking :: "tts \<Rightarrow> tts" where
  "stopSpeaking s =
     (let s1 = (case audioRef s of
                  Some a \<Rightarrow> (pause a s)\<lparr>audioRef := None\<rparr>
                | None \<Rightarrow> s);
          s2 = (if hasSpeechSynthesis s1 then s1\<lparr>synthQueue := []\<rparr> else s1)
      in s2\<lparr>isSpeaking := False\<rparr>)"

text \<open>
  The handlers \<open>speak\<close> installs, as transitions taken when the platform fires the
  event. Element \<open>a\<close> ends or fails: it no longer plays, and the handler clears the flag
  and revokes the element's URL; \<open>audio.onerror\<close> then throws, inside the event handler.
  There is no event for an element that was never created. The utterance being spoken
  ends or fails: the platform drops it from its queue (after \<open>cancel\<close> the queue is
  already empty when the error event of the interrupted utterance arrives).
\<close>

definition audio_onended :: "nat \<Rightarrow> tts \<Rightarrow> tts" where
  "audio_onended a s =
     (if a < length (audios s) then
        (let s1 = pause a s;
             s2 = s1\<lparr>isSpeaking := False\<rparr>
         in revokeObjectURL (audioUrl (audios s ! a)) s2)
      else s)"

definition audio_onerror :: "nat \<Rightarrow> tts \<Rightarrow> completion \<times> tts" where
  "audio_onerror a s =
     (if a < length (audios s) then
        (let s1 = pause a s;
             s2 = s1\<lparr>isSpeaking := False\<rparr>
         in (Throw (JsError ''Failed to play backend audio''),
             revokeObjectURL (audioUrl (audios s ! a)) s2))
      else (Normal, s))"

definition utterance_onend :: "tts \<Rightarrow> tts" where
  "utterance_onend s = (s\<lparr>synthQueue := tl (synthQueue s)\<rparr>)\<lparr>isSpeaking := False\<rparr>"


subsection \<open>\<open>useTextToSpeech\<close>\<close>

text \<open>
  \<open>apiService.textToSpeech\<close>: the HTTP client rejects on a network failure and on a
  non-success status (its message is not read by the hook), and returns the response's
  data otherwise: the parsed JSON, or the body as a string when it is not JSON.
\<close>

definition apiService_textToSpeech ::
    "string \<Rightarrow> string js_arg \<Rightarrow> call_env \<Rightarrow> js_error + json_body" where
  "apiService_textToSpeech t lc e =
     (case fetchResult e of
        FetchRejected \<Rightarrow> Inl (JsError ''Network Error'')
      | FetchResponse ok body \<Rightarrow>
          if ok then Inr body else Inl (JsError ''Request failed with status code''))"

text \<open>
  Reading \<open>result.audio_content\<close>: a string has no such property, reading it from
  \<open>null\<close> throws.
\<close>

definition audio_content_of :: "json_body \<Rightarrow> js_error + string option" where
  "audio_content_of result =
     (case result of
        JsonError \<Rightarrow> Inr None
      | JsonNull \<Rightarrow> Inl (JsTypeError ''Cannot read properties of null'')
      | JsonOk audio_content \<Rightarrow> Inr audio_content)"

text \<open>
  The language of the fallback utterance: the default parameter \<open>'en-US'\<close> when the
  argument is left out; \<open>utterance.lang = null\<close> stores the string \<open>null\<close>.
\<close>

definition utteranceLang :: "string js_arg \<Rightarrow> string" where
  "utteranceLang languageCodeArg =
     (case languageCodeArg of
        ArgUndefined \<Rightarrow> ''en-US''
      | ArgNull \<Rightarrow> ''null''
      | ArgValue l \<Rightarrow> l)"

text \<open>
  The utterance of both fallback places of \<open>useTextToSpeech\<close>'s \<open>speak\<close>: the language as
  requested, the rate 0.8, everything else as the platform has it.
\<close>

definition fallbackUtterance :: "string \<Rightarrow> string \<Rightarrow> utterance" where
  "fallbackUtterance t lc = (newUtterance t)\<lparr>uLang := lc, uRate := 0.8\<rparr>"

text \<open>
  \<open>speak(text, languageCode = 'en-US')\<close> of \<open>useTextToSpeech\<close>: one \<open>try\<close>, whose \<open>catch\<close>
  clears the flag and then falls back to the browser's synthesis itself.
\<close>

definition useTextToSpeech_speak ::
    "string \<Rightarrow> string js_arg \<Rightarrow> call_env \<Rightarrow> tts \<Rightarrow> completion \<times> tts" where
  "useTextToSpeech_speak t languageCodeArg e s =
     (let lc = utteranceLang languageCodeArg in
      try_catch
        (let s1 = s\<lparr>isSpeaking := True\<rparr> in
         case apiService_textToSpeech t languageCodeArg e of
           Inl err \<Rightarrow> (Throw err, s1)
         | Inr result \<Rightarrow>
             (case audio_content_of result of
                Inl err \<Rightarrow> (Throw err, s1)
              | Inr audio_content \<Rightarrow>
                  if truthy audio_content then
                    (if atobThrows e then (Throw (JsDOMException ''InvalidCharacterError''), s1)
                     else playBackendAudio e s1)
                  else if hasSpeechSynthesis s1 then
                    (Normal, s1\<lparr>synthQueue := synthQueue s1 @ [fallbackUtterance t lc]\<rparr>)
                  else (Normal, s1\<lparr>isSpeaking := False\<rparr>)))
        (\<lambda>err s'.
           (let s1 = s'\<lparr>isSpeaking := False\<rparr> in
            if hasSpeechSynthesis s1 then
              (Normal, s1\<lparr>synthQueue := synthQueue s1 @ [fallbackUtterance t lc]\<rparr>)
            else (Normal, s1))))"

definition useTextToSpeech_stopSpeaking :: "tts \<Rightarrow> tts" where
  "useTextToSpeech_stopSpeaking s =
     (let s1 = (case audioRef s of
                  Some a \<Rightarrow> (pause a s)\<lparr>audioRef := None\<rparr>
                | None \<Rightarrow> s);
          s2 = (if hasSpeechSynthesis s1 then s1\<lparr>synthQueue := []\<rparr> else s1)
      in s2\<lparr>isSpeaking := False\<rparr>)"

subsection \<open>Observations on the state\<close>

text \<open>
  The hook state when the component mounts (\<open>useState(false)\<close>, \<open>useState(null)\<close>,
  \<open>useRef(null)\<close>), in a browser with or without speech synthesis and with the given
  voices; nothing has been created yet.
\<close>

definition initialTts :: "bool \<Rightarrow> voice list \<Rightarrow> tts" where
  "initialTts synth vs =
     \<lparr>isSpeaking = False, ttsError = None, audioRef = None, audios = [], objectUrls = [],
      urlCounter = 0, hasSpeechSynthesis = synth, voices = vs, synthQueue = []\<rparr>"

text \<open>
  The resources that are active: the audio elements that play, and the utterances the
  platform holds (one being spoken, the others waiting behind it).
\<close>

definition activeResources :: "tts \<Rightarrow> nat" where
  "activeResources s = length (filter playing (audios s)) + length (synthQueue s)"

text \<open>
  The render call gives a payload that decodes (an audio element is then created), and
  the element also starts playing.
\<close>

definition backendDecodes :: "call_env \<Rightarrow> bool" where
  "backendDecodes e =
     (case fetchResult e of
        FetchResponse ok (JsonOk audio_content) \<Rightarrow> ok \<and> truthy audio_content \<and> \<not> atobThrows e
      | FetchResponse ok JsonError \<Rightarrow> False
      | FetchResponse ok JsonNull \<Rightarrow> False
      | FetchRejected \<Rightarrow> False)"

definition backendPlays :: "call_env \<Rightarrow> bool" where
  "backendPlays e = (backendDecodes e \<and> \<not> playRejects e)"

section \<open>Properties of speech capture\<close>

lemma onresult_loop_eq:
  "onresult_loop rs i (fin, intr) =
     (fin @ concat (map alt0 (filter isFinal (drop i rs))),
      intr @ concat (map alt0 (filter (\<lambda>r. \<not> isFinal r) (drop i rs))))"
proof (induction rs i "(fin, intr)" arbitrary: fin intr rule: onresult_loop.induct)
  case (1 rs i fin intr)
  show ?case
  proof (cases "i < length rs")
    case False
    then show ?thesis by (simp add: onresult_loop.simps)
  next
    case True
    then have d: "drop i rs = rs ! i # drop (Suc i) rs"
      by (simp add: Cons_nth_drop_Suc)
    show ?thesis
    proof (cases "isFinal (rs ! i)")
      case True
      with \<open>i < length rs\<close> "1.hyps"(1) d show ?thesis
        by (subst onresult_loop.simps) simp
    next
      case False
      with \<open>i < length rs\<close> "1.hyps"(2) d show ?thesis
        by (subst onresult_loop.simps) simp
    qed
  qed
qed

lemma onresult_final:
  "finalTranscriptRef (onresult ev s) = finalTranscriptRef s @ concat (finalSegments ev)"
  by (simp add: onresult_def onresult_loop_eq finalSegments_def)

lemma onresult_transcript:
  "transcript (onresult ev s) = finalTranscriptRef s @ concat (finalSegments ev)"
  by (simp add: onresult_def onresult_loop_eq finalSegments_def)

lemma onresult_interim:
  "interimTranscript (onresult ev s) = concat (interimSegments ev)"
  by (simp add: onresult_def onresult_loop_eq interimSegments_def)

lemma onresults_final:
  "finalTranscriptRef (onresults evs s) =
     finalTranscriptRef s @ concat (concat (map finalSegments evs))"
  by (induction evs arbitrary: s) (simp_all add: onresult_final)

lemma onresults_transcript:
  "transcript (onresults evs s) =
     (if evs = [] then transcript s
      else finalTranscriptRef s @ concat (concat (map finalSegments evs)))"
proof (induction evs arbitrary: s)
  case Nil
  show ?case by simp
next
  case (Cons ev evs)
  show ?case
    using Cons.IH [of "onresult ev s"]
    by (simp add: onresult_final onresult_transcript)
qed

lemma kindOfMessage_default:
  "kindOfMessage (''Speech recognition error: '' @ code) = Other"
  by (simp add: kindOfMessage_def)

text \<open>
  The scenario of two interim updates (\<open>hel\<close>, \<open>hello wor\<close>) and one final segment
  (\<open>hello world\<close>), run through the loop after \<open>startListening\<close>.
\<close>

lemma scenario_hello_world:
  "onresults
     [\<lparr>resultIndex = 0, results = [\<lparr>alt0 = ''hel'', isFinal = False\<rparr>]\<rparr>,
      \<lparr>resultIndex = 0, results = [\<lparr>alt0 = ''hello wor'', isFinal = False\<rparr>]\<rparr>,
      \<lparr>resultIndex = 0, results = [\<lparr>alt0 = ''hello world'', isFinal = True\<rparr>]\<rparr>]
     (startListening ''en-US'' False
       \<lparr>isListening = False, transcript = ''old'', interimTranscript = ''x'',
        error = None, isSupported = True, finalTranscriptRef = ''old'', lang = ''en-US''\<rparr>)
   = \<lparr>isListening = False, transcript = ''hello world'', interimTranscript = [],
        error = None, isSupported = True, finalTranscriptRef = ''hello world'', lang = ''en-US''\<rparr>"
  by (simp add: onresult_def onresult_loop.simps startListening_def)

text \<open>
  C2: over any sequence of result events, the final transcript (the ref, and the
  \<open>transcript\<close> state after each event) is what it was at the start followed by the final
  segments of all events in arrival order; what was committed stays a prefix (it is
  never revised); the interim transcript after an event is made of that event's interim
  segments alone, whatever it was before; and an event without final segments (an
  interim update) leaves the final transcript as it was.
\<close>

theorem final_transcript_append_only:
  "finalTranscriptRef (onresults evs s) =
     finalTranscriptRef s @ concat (concat (map finalSegments evs))
   \<and> transcript (onresults (evs @ [ev]) s) =
     finalTranscriptRef s @ concat (concat (map finalSegments (evs @ [ev])))
   \<and> interimTranscript (onresult ev s) = concat (interimSegments ev)
   \<and> prefix (finalTranscriptRef s) (finalTranscriptRef (onresult ev s))
   \<and> (finalSegments ev = [] \<longrightarrow>
        finalTranscriptRef (onresult ev s) = finalTranscriptRef s
        \<and> transcript (onresult ev s) = finalTranscriptRef s)"
  by (simp add: onresults_final onresults_transcript onresult_final onresult_transcript
      onresult_interim)

theorem final_transcript_append_only_witness:
  "finalSegments \<lparr>resultIndex = 0, results = [\<lparr>alt0 = ''hel'', isFinal = False\<rparr>]\<rparr> = []
   \<and> transcript
        (onresult \<lparr>resultIndex = 0, results = [\<lparr>alt0 = ''hel'', isFinal = False\<rparr>]\<rparr>
          \<lparr>isListening = True, transcript = ''hello world'', interimTranscript = [],
            error = None, isSupported = True, finalTranscriptRef = ''hello world'',
            lang = ''en-US''\<rparr>) = ''hello world''"
  using final_transcript_append_only
    [of "[]" "\<lparr>isListening = True, transcript = ''hello world'', interimTranscript = [],
            error = None, isSupported = True, finalTranscriptRef = ''hello world'',
            lang = ''en-US''\<rparr>"
        "\<lparr>resultIndex = 0, results = [\<lparr>alt0 = ''hel'', isFinal = False\<rparr>]\<rparr>"]
  by (simp add: finalSegments_def)

text \<open>
  C5: after a platform error event the stored error message stands for the error kind
  the table gives for the code (no-speech, audio-capture-denied, permission-denied,
  network, and other for every other code), and listening is false; for the code
  \<open>not-allowed\<close> the message is the permission message, of kind permission-denied.
\<close>

theorem onerror_maps_to_error_kind:
  "map_option kindOfMessage (error (onerror code s)) = Some (spec_errorKind code)
   \<and> \<not> isListening (onerror code s)
   \<and> error (onerror ''not-allowed'' s)
       = Some ''Microphone permission denied. Please allow microphone access.''
   \<and> map_option kindOfMessage (error (onerror ''not-allowed'' s)) = Some PermissionDenied"
  by (simp add: onerror_def spec_errorKind_def kindOfMessage_def Let_def)

text \<open>
  C8: \<open>resetTranscript\<close> empties the final transcript (state and ref) and the interim
  transcript and clears the error; the listening flag, the support flag and the
  recogniser's language are as before, and nothing else of the state changes.
\<close>

theorem resetTranscript_frame:
  "transcript (resetTranscript s) = []
   \<and> finalTranscriptRef (resetTranscript s) = []
   \<and> interimTranscript (resetTranscript s) = []
   \<and> error (resetTranscript s) = None
   \<and> isListening (resetTranscript s) = isListening s
   \<and> isSupported (resetTranscript s) = isSupported s
   \<and> lang (resetTranscript s) = lang s
   \<and> capture.more (resetTranscript s) = capture.more s"
  by (simp add: resetTranscript_def)

section \<open>Properties of text to speech\<close>

subsection \<open>What one call of \<open>speak\<close> does\<close>

lemma playBackendAudio_fst:
  "fst (playBackendAudio e s) =
     (if playRejects e then Throw (JsDOMException ''NotAllowedError'') else Normal)"
  by (simp add: playBackendAudio_def Let_def)

lemma playBackendAudio_snd:
  "snd (playBackendAudio e s) =
     s\<lparr>objectUrls := objectUrls s @ [urlCounter s],
       urlCounter := Suc (urlCounter s),
       audios := audios s @ [\<lparr>audioUrl = urlCounter s, playing = (\<not> playRejects e)\<rparr>],
       audioRef := Some (length (audios s))\<rparr>"
  by (simp add: playBackendAudio_def Let_def)

lemma hasSpeechSynthesis_playBackendAudio:
  "hasSpeechSynthesis (snd (playBackendAudio e s)) = hasSpeechSynthesis s"
  by (simp add: playBackendAudio_snd)

text \<open>
  The backend path plays exactly when the response is a success whose body is a JSON
  object with a non-empty \<open>audio_content\<close> that decodes and whose element starts
  playing; every other answer is a failure of the backend path.
\<close>

lemma backendPlays_iff:
  "backendPlays e =
     (\<exists>c. fetchResult e = FetchResponse True (JsonOk (Some c)) \<and> c \<noteq> []
          \<and> \<not> atobThrows e \<and> \<not> playRejects e)"
proof (cases "fetchResult e")
  case FetchRejected
  then show ?thesis by (simp add: backendPlays_def backendDecodes_def)
next
  case (FetchResponse ok body)
  show ?thesis
  proof (cases body)
    case JsonError
    with FetchResponse show ?thesis by (simp add: backendPlays_def backendDecodes_def)
  next
    case JsonNull
    with FetchResponse show ?thesis by (simp add: backendPlays_def backendDecodes_def)
  next
    case (JsonOk audio_content)
    with FetchResponse show ?thesis
      by (cases audio_content) (auto simp add: backendPlays_def backendDecodes_def)
  qed
qed

lemma tryBackendTTS_fst:
  "fst (tryBackendTTS t lc e s) = (if backendPlays e then Return else Normal)"
  by (simp add: tryBackendTTS_def try_catch_def backendTTS_def and_then_def backendPlays_def
      backendDecodes_def playBackendAudio_fst split: fetch_result.splits json_body.splits)

lemma tryBackendTTS_snd:
  "snd (tryBackendTTS t lc e s) =
     (if backendDecodes e then snd (playBackendAudio e s) else s)"
  by (simp add: tryBackendTTS_def try_catch_def backendTTS_def and_then_def backendDecodes_def
      playBackendAudio_fst split: fetch_result.splits json_body.splits)

lemma browserSynthesis_fst:
  "fst (browserSynthesis t r s) =
     (if hasSpeechSynthesis s then Normal
      else Throw (JsError ''Text-to-speech not supported in this browser''))"
  by (simp add: browserSynthesis_def Let_def)

lemma browserSynthesis_snd:
  "snd (browserSynthesis t r s) =
     (if hasSpeechSynthesis s then
        s\<lparr>synthQueue := synthQueue s @
            [\<lparr>uText = t, uLang = reqLanguageCode r, uRate = reqRate r, uPitch = reqPitch r,
              uVolume = reqVolume r,
              uVoice = preferredVoice (voices s) (reqLanguageCode r)\<rparr>]\<rparr>
      else s)"
  by (simp add: browserSynthesis_def Let_def newUtterance_def split: option.splits)

lemma speakBody_fst:
  "fst (speakBody t r e s) =
     (if reqUseBackend r \<and> backendPlays e then Return else Normal)"
  by (simp add: speakBody_def Let_def try_catch_def and_then_def
      tryBackendTTS_fst tryBackendTTS_snd browserSynthesis_fst
      hasSpeechSynthesis_playBackendAudio)

lemma speakBody_snd:
  "snd (speakBody t r e s) =
     (let s2 = s\<lparr>isSpeaking := True, ttsError := None\<rparr>;
          s3 = (if reqUseBackend r \<and> backendDecodes e then snd (playBackendAudio e s2) else s2)
      in if reqUseBackend r \<and> backendPlays e then s3
         else if hasSpeechSynthesis s then snd (browserSynthesis t r s3)
         else s3\<lparr>ttsError := Some ''Text-to-speech not supported in this browser'',
                 isSpeaking := False\<rparr>)"
  by (simp add: speakBody_def Let_def try_catch_def and_then_def
      tryBackendTTS_fst tryBackendTTS_snd browserSynthesis_fst browserSynthesis_snd
      hasSpeechSynthesis_playBackendAudio backendPlays_def)

lemma speakBody_audios:
  "audios (snd (speakBody t r e s)) =
     audios s @ (if reqUseBackend r \<and> backendDecodes e
                 then [\<lparr>audioUrl = urlCounter s, playing = (\<not> playRejects e)\<rparr>] else [])"
  by (simp add: speakBody_snd Let_def playBackendAudio_snd browserSynthesis_snd)

lemma speakBody_objectUrls:
  "objectUrls (snd (speakBody t r e s)) =
     objectUrls s @ (if reqUseBackend r \<and> backendDecodes e then [urlCounter s] else [])"
  by (simp add: speakBody_snd Let_def playBackendAudio_snd browserSynthesis_snd)

lemma speakBody_synthQueue:
  "synthQueue (snd (speakBody t r e s)) =
     synthQueue s @
       (if \<not> (reqUseBackend r \<and> backendPlays e) \<and> hasSpeechSynthesis s
        then [\<lparr>uText = t, uLang = reqLanguageCode r, uRate = reqRate r, uPitch = reqPitch r,
               uVolume = reqVolume r,
               uVoice = preferredVoice (voices s) (reqLanguageCode r)\<rparr>]
        else [])"
  by (simp add: speakBody_snd Let_def playBackendAudio_snd browserSynthesis_snd)

lemma speakBody_ttsError:
  "ttsError (snd (speakBody t r e s)) =
     (if (reqUseBackend r \<and> backendPlays e) \<or> hasSpeechSynthesis s
      then None else Some ''Text-to-speech not supported in this browser'')"
  by (simp add: speakBody_snd Let_def playBackendAudio_snd browserSynthesis_snd)

lemma speakBody_isSpeaking:
  "isSpeaking (snd (speakBody t r e s)) =
     ((reqUseBackend r \<and> backendPlays e) \<or> hasSpeechSynthesis s)"
  by (simp add: speakBody_snd Let_def playBackendAudio_snd browserSynthesis_snd)

lemma speakBody_activeResources:
  "activeResources (snd (speakBody t r e s)) =
     activeResources s +
       (if (reqUseBackend r \<and> backendPlays e) \<or> hasSpeechSynthesis s then 1 else 0)"
  by (auto simp add: activeResources_def speakBody_audios speakBody_synthQueue backendPlays_def)




lemma speak_Inr: "destructure options = Inr r \<Longrightarrow> speak t options e s = speakBody t r e s"
  by (simp add: speak_def)

subsection \<open>What one call of \<open>useTextToSpeech\<close>'s \<open>speak\<close> does\<close>

lemmas useTextToSpeech_speak_unfold =
  useTextToSpeech_speak_def Let_def try_catch_def apiService_textToSpeech_def
  audio_content_of_def playBackendAudio_fst playBackendAudio_snd

lemma useTextToSpeech_speak_fst:
  "fst (useTextToSpeech_speak t lc e s) = Normal"
  by (simp add: useTextToSpeech_speak_unfold
      split: fetch_result.splits json_body.splits sum.splits)

lemma useTextToSpeech_speak_audios:
  "audios (snd (useTextToSpeech_speak t lc e s)) =
     audios s @ (if backendDecodes e
                 then [\<lparr>audioUrl = urlCounter s, playing = (\<not> playRejects e)\<rparr>] else [])"
  by (simp add: useTextToSpeech_speak_unfold backendDecodes_def
      split: fetch_result.splits json_body.splits sum.splits)

lemma useTextToSpeech_speak_objectUrls:
  "objectUrls (snd (useTextToSpeech_speak t lc e s)) =
     objectUrls s @ (if backendDecodes e then [urlCounter s] else [])"
  by (simp add: useTextToSpeech_speak_unfold backendDecodes_def
      split: fetch_result.splits json_body.splits sum.splits)

lemma useTextToSpeech_speak_synthQueue:
  "synthQueue (snd (useTextToSpeech_speak t lc e s)) =
     synthQueue s @
       (if \<not> backendPlays e \<and> hasSpeechSynthesis s
        then [\<lparr>uText = t, uLang = utteranceLang lc, uRate = 0.8, uPitch = 1, uVolume = 1,
               uVoice = None\<rparr>]
        else [])"
  by (simp add: useTextToSpeech_speak_unfold backendDecodes_def backendPlays_def
      fallbackUtterance_def newUtterance_def
      split: fetch_result.splits json_body.splits sum.splits)

lemma useTextToSpeech_speak_ttsError:
  "ttsError (snd (useTextToSpeech_speak t lc e s)) = ttsError s"
  by (simp add: useTextToSpeech_speak_unfold
      split: fetch_result.splits json_body.splits sum.splits)

lemma useTextToSpeech_speak_activeResources:
  "activeResources (snd (useTextToSpeech_speak t lc e s)) =
     activeResources s + (if backendPlays e \<or> hasSpeechSynthesis s then 1 else 0)"
  by (auto simp add: activeResources_def useTextToSpeech_speak_audios
      useTextToSpeech_speak_synthQueue backendPlays_def)

subsection \<open>\<open>stopSpeaking\<close>\<close>

lemma stopSpeaking_idem: "stopSpeaking (stopSpeaking s) = stopSpeaking s"
  by (simp add: stopSpeaking_def pause_def Let_def split: option.splits)

lemma stopSpeaking_paused:
  "audioRef s = Some a \<Longrightarrow> a < length (audios s) \<Longrightarrow> \<not> playing (audios (stopSpeaking s) ! a)"
  by (simp add: stopSpeaking_def pause_def Let_def)

lemma stopSpeaking_idle:
  "audioRef s = None \<Longrightarrow> synthQueue s = [] \<Longrightarrow> stopSpeaking s = s\<lparr>isSpeaking := False\<rparr>"
  by (simp add: stopSpeaking_def Let_def)

lemma stopSpeaking_nothing_playing:
  assumes "synthQueue s = []"
    and "audioRef s = Some a" and "a < length (audios s)" and "\<not> playing (audios s ! a)"
  shows "stopSpeaking s = s\<lparr>audioRef := None, isSpeaking := False\<rparr>"
proof -
  from assms(4) have "(audios s ! a)\<lparr>playing := False\<rparr> = audios s ! a"
    by simp
  then have "(audios s)[a := (audios s ! a)\<lparr>playing := False\<rparr>] = audios s"
    by (simp add: list_update_same_conv assms(3))
  with assms(1,2,3) show ?thesis
    by (simp add: stopSpeaking_def pause_def Let_def)
qed

lemma stopSpeaking_other_elements:
  "audioRef s \<noteq> Some i \<Longrightarrow> audios (stopSpeaking s) ! i = audios s ! i"
  by (auto simp add: stopSpeaking_def pause_def Let_def split: option.splits)

lemma stopSpeaking_length: "length (audios (stopSpeaking s)) = length (audios s)"
  by (simp add: stopSpeaking_def pause_def Let_def split: option.splits)

lemma stopSpeaking_objectUrls: "objectUrls (stopSpeaking s) = objectUrls s"
  by (simp add: stopSpeaking_def pause_def Let_def split: option.splits)

lemma useTextToSpeech_stopSpeaking_eq: "useTextToSpeech_stopSpeaking s = stopSpeaking s"
  by (simp add: useTextToSpeech_stopSpeaking_def stopSpeaking_def)

text \<open>
  C6, as stated, fails: \<open>stopSpeaking\<close> does not stop every backend playback. After two
  overlapping calls of \<open>speak\<close> that both play backend audio, only the second element
  is held in \<open>audioRef\<close>; \<open>stopSpeaking\<close>, called once or twice, pauses that one and
  leaves the first element playing.
\<close>

theorem stopSpeaking_orphan_counterexample:
  "audios (snd (speak ''Two'' ArgUndefined
       \<lparr>fetchResult = FetchResponse True (JsonOk (Some ''QUJD'')), atobThrows = False,
        playRejects = False\<rparr>
       (snd (speak ''One'' ArgUndefined
         \<lparr>fetchResult = FetchResponse True (JsonOk (Some ''QUJD'')), atobThrows = False,
          playRejects = False\<rparr> (initialTts True [])))))
     = [\<lparr>audioUrl = 0, playing = True\<rparr>, \<lparr>audioUrl = 1, playing = True\<rparr>]
   \<and> audios (stopSpeaking (snd (speak ''Two'' ArgUndefined
       \<lparr>fetchResult = FetchResponse True (JsonOk (Some ''QUJD'')), atobThrows = False,
        playRejects = False\<rparr>
       (snd (speak ''One'' ArgUndefined
         \<lparr>fetchResult = FetchResponse True (JsonOk (Some ''QUJD'')), atobThrows = False,
          playRejects = False\<rparr> (initialTts True []))))))
     = [\<lparr>audioUrl = 0, playing = True\<rparr>, \<lparr>audioUrl = 1, playing = False\<rparr>]
   \<and> playing (audios (stopSpeaking (stopSpeaking (snd (speak ''Two'' ArgUndefined
       \<lparr>fetchResult = FetchResponse True (JsonOk (Some ''QUJD'')), atobThrows = False,
        playRejects = False\<rparr>
       (snd (speak ''One'' ArgUndefined
         \<lparr>fetchResult = FetchResponse True (JsonOk (Some ''QUJD'')), atobThrows = False,
          playRejects = False\<rparr> (initialTts True [])))))))
     ! 0)
   \<and> activeResources (stopSpeaking (snd (speak ''Two'' ArgUndefined
       \<lparr>fetchResult = FetchResponse True (JsonOk (Some ''QUJD'')), atobThrows = False,
        playRejects = False\<rparr>
       (snd (speak ''One'' ArgUndefined
         \<lparr>fetchResult = FetchResponse True (JsonOk (Some ''QUJD'')), atobThrows = False,
          playRejects = False\<rparr> (initialTts True []))))))
     = 1"
  by (simp add: speak_def destructure_def speakBody_snd playBackendAudio_snd
      backendPlays_def backendDecodes_def initialTts_def activeResources_def
      stopSpeaking_def pause_def Let_def)

text \<open>
  C6, amended: \<open>stopSpeaking\<close> (of either hook) is idempotent; after it the speaking
  flag is false, the audio element held in \<open>audioRef\<close> (if any) is paused and no longer
  held, every other audio element is as it was, and, in a browser with speech synthesis,
  the platform's utterance queue is empty; when no element is held and no utterance is
  queued it changes nothing but the flag, and nothing at all when the flag was false;
  when the held element has already stopped playing and no utterance is queued, it only
  lets go of the element and clears the flag.
\<close>

theorem stopSpeaking_idempotent:
  "stopSpeaking (stopSpeaking s) = stopSpeaking s
   \<and> \<not> isSpeaking (stopSpeaking s)
   \<and> audioRef (stopSpeaking s) = None
   \<and> (\<forall>a. audioRef s = Some a \<and> a < length (audios s) \<longrightarrow>
          \<not> playing (audios (stopSpeaking s) ! a))
   \<and> (hasSpeechSynthesis s \<longrightarrow> synthQueue (stopSpeaking s) = [])
   \<and> (audioRef s = None \<and> synthQueue s = [] \<longrightarrow> stopSpeaking s = s\<lparr>isSpeaking := False\<rparr>)
   \<and> (audioRef s = None \<and> synthQueue s = [] \<and> \<not> isSpeaking s \<longrightarrow> stopSpeaking s = s)
   \<and> (\<forall>a. synthQueue s = [] \<and> audioRef s = Some a \<and> a < length (audios s)
            \<and> \<not> playing (audios s ! a) \<longrightarrow>
          stopSpeaking s = s\<lparr>audioRef := None, isSpeaking := False\<rparr>)
   \<and> useTextToSpeech_stopSpeaking (useTextToSpeech_stopSpeaking s)
       = useTextToSpeech_stopSpeaking s
   \<and> useTextToSpeech_stopSpeaking s = stopSpeaking s
   \<and> length (audios (stopSpeaking s)) = length (audios s)
   \<and> (\<forall>i. audioRef s \<noteq> Some i \<longrightarrow> audios (stopSpeaking s) ! i = audios s ! i)"
proof -
  have flag: "\<not> isSpeaking (stopSpeaking s)"
    by (simp add: stopSpeaking_def Let_def)
  have ref: "audioRef (stopSpeaking s) = None"
    by (simp add: stopSpeaking_def pause_def Let_def split: option.splits)
  have queue: "hasSpeechSynthesis s \<longrightarrow> synthQueue (stopSpeaking s) = []"
    by (simp add: stopSpeaking_def pause_def Let_def split: option.splits)
  have same: "audioRef s = None \<and> synthQueue s = [] \<and> \<not> isSpeaking s \<longrightarrow> stopSpeaking s = s"
    by (simp add: stopSpeaking_def Let_def)
  show ?thesis
    using flag ref queue same
    by (simp add: stopSpeaking_idem stopSpeaking_paused stopSpeaking_idle
        stopSpeaking_nothing_playing useTextToSpeech_stopSpeaking_eq
        stopSpeaking_length stopSpeaking_other_elements)
qed

theorem stopSpeaking_idempotent_witness:
  "audioRef \<lparr>isSpeaking = True, ttsError = None, audioRef = Some 1,
      audios = [\<lparr>audioUrl = 0, playing = True\<rparr>, \<lparr>audioUrl = 1, playing = True\<rparr>],
      objectUrls = [0, 1], urlCounter = 2,
      hasSpeechSynthesis = True, voices = [], synthQueue = []\<rparr> = Some 1
   \<and> \<not> playing (audios (stopSpeaking \<lparr>isSpeaking = True, ttsError = None, audioRef = Some 1,
      audios = [\<lparr>audioUrl = 0, playing = True\<rparr>, \<lparr>audioUrl = 1, playing = True\<rparr>],
      objectUrls = [0, 1], urlCounter = 2,
      hasSpeechSynthesis = True, voices = [], synthQueue = []\<rparr>) ! 1)
   \<and> audios (stopSpeaking \<lparr>isSpeaking = True, ttsError = None, audioRef = Some 1,
      audios = [\<lparr>audioUrl = 0, playing = True\<rparr>, \<lparr>audioUrl = 1, playing = True\<rparr>],
      objectUrls = [0, 1], urlCounter = 2,
      hasSpeechSynthesis = True, voices = [], synthQueue = []\<rparr>) ! 0
     = \<lparr>audioUrl = 0, playing = True\<rparr>
   \<and> synthQueue (stopSpeaking \<lparr>isSpeaking = True, ttsError = None, audioRef = Some 1,
      audios = [\<lparr>audioUrl = 0, playing = True\<rparr>, \<lparr>audioUrl = 1, playing = True\<rparr>],
      objectUrls = [0, 1], urlCounter = 2,
      hasSpeechSynthesis = True, voices = [], synthQueue = []\<rparr>) = []
   \<and> audioRef (initialTts True []) = None
   \<and> synthQueue (initialTts True []) = []
   \<and> \<not> isSpeaking (initialTts True [])
   \<and> stopSpeaking (initialTts True []) = initialTts True []
   \<and> \<not> playing (audios \<lparr>isSpeaking = False, ttsError = None, audioRef = Some 0,
      audios = [\<lparr>audioUrl = 0, playing = False\<rparr>], objectUrls = [], urlCounter = 1,
      hasSpeechSynthesis = True, voices = [], synthQueue = []\<rparr> ! 0)
   \<and> stopSpeaking \<lparr>isSpeaking = False, ttsError = None, audioRef = Some 0,
      audios = [\<lparr>audioUrl = 0, playing = False\<rparr>], objectUrls = [], urlCounter = 1,
      hasSpeechSynthesis = True, voices = [], synthQueue = []\<rparr>
     = \<lparr>isSpeaking = False, ttsError = None, audioRef = None,
      audios = [\<lparr>audioUrl = 0, playing = False\<rparr>], objectUrls = [], urlCounter = 1,
      hasSpeechSynthesis = True, voices = [], synthQueue = []\<rparr>"
  using stopSpeaking_idempotent [of "\<lparr>isSpeaking = True, ttsError = None, audioRef = Some 1,
      audios = [\<lparr>audioUrl = 0, playing = True\<rparr>, \<lparr>audioUrl = 1, playing = True\<rparr>],
      objectUrls = [0, 1], urlCounter = 2,
      hasSpeechSynthesis = True, voices = [], synthQueue = []\<rparr>"]
    stopSpeaking_idempotent [of "initialTts True []"]
    stopSpeaking_idempotent [of "\<lparr>isSpeaking = False, ttsError = None, audioRef = Some 0,
      audios = [\<lparr>audioUrl = 0, playing = False\<rparr>], objectUrls = [], urlCounter = 1,
      hasSpeechSynthesis = True, voices = [], synthQueue = []\<rparr>"]
  by (simp add: initialTts_def)

subsection \<open>One active resource\<close>

text \<open>
  C1, as stated, fails: with the backend answering with a playable payload, a second
  \<open>speak\<close> issued while the first call's audio element plays leaves two elements
  playing and both object URLs live.
\<close>

theorem speak_while_playing_counterexample:
  "playing (audios (snd (speak ''One'' ArgUndefined
       \<lparr>fetchResult = FetchResponse True (JsonOk (Some ''QUJD'')), atobThrows = False,
        playRejects = False\<rparr> (initialTts True []))) ! 0)
   \<and> activeResources (snd (speak ''One'' ArgUndefined
       \<lparr>fetchResult = FetchResponse True (JsonOk (Some ''QUJD'')), atobThrows = False,
        playRejects = False\<rparr> (initialTts True []))) = 1
   \<and> activeResources (snd (speak ''Two'' ArgUndefined
       \<lparr>fetchResult = FetchResponse True (JsonOk (Some ''QUJD'')), atobThrows = False,
        playRejects = False\<rparr>
       (snd (speak ''One'' ArgUndefined
         \<lparr>fetchResult = FetchResponse True (JsonOk (Some ''QUJD'')), atobThrows = False,
          playRejects = False\<rparr> (initialTts True [])))))
     \<noteq> 1
   \<and> audios (snd (speak ''Two'' ArgUndefined
       \<lparr>fetchResult = FetchResponse True (JsonOk (Some ''QUJD'')), atobThrows = False,
        playRejects = False\<rparr>
       (snd (speak ''One'' ArgUndefined
         \<lparr>fetchResult = FetchResponse True (JsonOk (Some ''QUJD'')), atobThrows = False,
          playRejects = False\<rparr> (initialTts True [])))))
     = [\<lparr>audioUrl = 0, playing = True\<rparr>, \<lparr>audioUrl = 1, playing = True\<rparr>]
   \<and> objectUrls (snd (speak ''Two'' ArgUndefined
       \<lparr>fetchResult = FetchResponse True (JsonOk (Some ''QUJD'')), atobThrows = False,
        playRejects = False\<rparr>
       (snd (speak ''One'' ArgUndefined
         \<lparr>fetchResult = FetchResponse True (JsonOk (Some ''QUJD'')), atobThrows = False,
          playRejects = False\<rparr> (initialTts True [])))))
     = [0, 1]"
  by (simp add: speak_def destructure_def speakBody_snd playBackendAudio_snd
      backendPlays_def backendDecodes_def initialTts_def activeResources_def Let_def)

text \<open>
  C1, amended: \<open>speak\<close> (of either hook) neither stops nor releases what was there.
  After the call the audio elements, the live object URLs and the queued utterances of
  before are all still there, unchanged and in their order, in front of what the call
  added (an element that played keeps playing). The number of active resources (playing
  elements and queued utterances) after the call is the number before it plus one when
  the call started backend playback or handed an utterance to the browser, and the
  number before it otherwise: for \<open>useEnhancedTextToSpeech\<close> plus one exactly when the
  options are not \<open>null\<close> and either the backend is preferred and its audio plays or the
  browser has speech synthesis; for \<open>useTextToSpeech\<close> plus one exactly when the backend
  audio plays or the browser has speech synthesis.
\<close>

theorem speak_keeps_previous_resources:
  "prefix (audios s) (audios (snd (speak t options e s)))
   \<and> prefix (objectUrls s) (objectUrls (snd (speak t options e s)))
   \<and> prefix (synthQueue s) (synthQueue (snd (speak t options e s)))
   \<and> activeResources (snd (speak t options e s)) =
       activeResources s +
         (case destructure options of
            Inl err \<Rightarrow> 0
          | Inr r \<Rightarrow>
              if (reqUseBackend r \<and> backendPlays e) \<or> hasSpeechSynthesis s then 1 else 0)
   \<and> prefix (audios s) (audios (snd (useTextToSpeech_speak t lc e s)))
   \<and> prefix (objectUrls s) (objectUrls (snd (useTextToSpeech_speak t lc e s)))
   \<and> prefix (synthQueue s) (synthQueue (snd (useTextToSpeech_speak t lc e s)))
   \<and> activeResources (snd (useTextToSpeech_speak t lc e s)) =
       activeResources s + (if backendPlays e \<or> hasSpeechSynthesis s then 1 else 0)"
proof (cases "destructure options")
  case (Inl err)
  then show ?thesis
    by (simp add: speak_def useTextToSpeech_speak_audios useTextToSpeech_speak_objectUrls
        useTextToSpeech_speak_synthQueue useTextToSpeech_speak_activeResources)
next
  case (Inr r)
  then show ?thesis
    by (simp add: speak_Inr speakBody_audios speakBody_objectUrls speakBody_synthQueue
        speakBody_activeResources useTextToSpeech_speak_audios
        useTextToSpeech_speak_objectUrls useTextToSpeech_speak_synthQueue
        useTextToSpeech_speak_activeResources)
qed

subsection \<open>Release of resources\<close>

text \<open>
  C4 fails on the explicit stop: after a \<open>speak\<close> that plays backend audio,
  \<open>stopSpeaking\<close> pauses the element and forgets it, but the object URL stays live
  (\<open>stopSpeaking\<close> never revokes a URL), whereas the end of playback revokes it.
\<close>

theorem stopSpeaking_leaves_object_url:
  "objectUrls (stopSpeaking (snd (speak ''Hi'' ArgUndefined
       \<lparr>fetchResult = FetchResponse True (JsonOk (Some ''QUJD'')), atobThrows = False,
        playRejects = False\<rparr> (initialTts True [])))) = [0]
   \<and> audios (stopSpeaking (snd (speak ''Hi'' ArgUndefined
       \<lparr>fetchResult = FetchResponse True (JsonOk (Some ''QUJD'')), atobThrows = False,
        playRejects = False\<rparr> (initialTts True []))))
      = [\<lparr>audioUrl = 0, playing = False\<rparr>]
   \<and> audioRef (stopSpeaking (snd (speak ''Hi'' ArgUndefined
       \<lparr>fetchResult = FetchResponse True (JsonOk (Some ''QUJD'')), atobThrows = False,
        playRejects = False\<rparr> (initialTts True [])))) = None
   \<and> objectUrls (audio_onended 0 (snd (speak ''Hi'' ArgUndefined
       \<lparr>fetchResult = FetchResponse True (JsonOk (Some ''QUJD'')), atobThrows = False,
        playRejects = False\<rparr> (initialTts True [])))) = []
   \<and> objectUrls (snd (audio_onerror 0 (snd (speak ''Hi'' ArgUndefined
       \<lparr>fetchResult = FetchResponse True (JsonOk (Some ''QUJD'')), atobThrows = False,
        playRejects = False\<rparr> (initialTts True []))))) = []
   \<and> objectUrls (stopSpeaking s) = objectUrls s"
  by (simp add: speak_def destructure_def speakBody_snd playBackendAudio_snd
      backendPlays_def backendDecodes_def initialTts_def stopSpeaking_def pause_def
      audio_onended_def audio_onerror_def revokeObjectURL_def Let_def split: option.splits)

subsection \<open>Fallback to local synthesis\<close>

text \<open>
  C3: when the backend is preferred and the backend path fails in any way (the request
  is rejected, the status is not a success, the body is not JSON or is \<open>null\<close>, the
  response has no \<open>audio_content\<close>, the payload does not decode, or the element does not
  start playing: everything but a playing backend audio, see \<open>backendPlays_iff\<close>), the
  promise of \<open>speak\<close> still resolves and no further element plays; where the browser has
  speech synthesis, the utterance for the text, with the requested language, rate,
  pitch and volume, is handed to it, the error state is empty, and it is still empty,
  with the speaking flag cleared, when the utterance has ended; only where the browser
  has no speech synthesis is an error stored. When no payload was decoded, no element
  and no URL were created either. \<open>useTextToSpeech\<close>'s \<open>speak\<close> likewise resolves and
  hands to the browser the utterance for the text, with the language as requested
  (\<open>en-US\<close> when left out), rate 0.8 and the platform's pitch, volume and voice, and has
  no error state to touch.
\<close>

theorem backend_failure_falls_back:
  assumes "destructure options = Inr r" and "reqUseBackend r" and "\<not> backendPlays e"
  shows "resolved (fst (speak t options e s))
   \<and> filter playing (audios (snd (speak t options e s))) = filter playing (audios s)
   \<and> (\<not> backendDecodes e \<longrightarrow>
        audios (snd (speak t options e s)) = audios s
        \<and> objectUrls (snd (speak t options e s)) = objectUrls s)
   \<and> (hasSpeechSynthesis s \<longrightarrow>
        synthQueue (snd (speak t options e s)) =
          synthQueue s @
            [\<lparr>uText = t, uLang = reqLanguageCode r, uRate = reqRate r, uPitch = reqPitch r,
              uVolume = reqVolume r,
              uVoice = preferredVoice (voices s) (reqLanguageCode r)\<rparr>]
        \<and> ttsError (snd (speak t options e s)) = None
        \<and> isSpeaking (snd (speak t options e s))
        \<and> ttsError (utterance_onend (snd (speak t options e s))) = None
        \<and> \<not> isSpeaking (utterance_onend (snd (speak t options e s))))
   \<and> (\<not> hasSpeechSynthesis s \<longrightarrow>
        ttsError (snd (speak t options e s))
          = Some ''Text-to-speech not supported in this browser'')
   \<and> resolved (fst (useTextToSpeech_speak t lc e s))
   \<and> filter playing (audios (snd (useTextToSpeech_speak t lc e s)))
       = filter playing (audios s)
   \<and> (hasSpeechSynthesis s \<longrightarrow>
        synthQueue (snd (useTextToSpeech_speak t lc e s)) =
          synthQueue s @
            [\<lparr>uText = t,
              uLang = (case lc of ArgUndefined \<Rightarrow> ''en-US'' | ArgNull \<Rightarrow> ''null''
                       | ArgValue l \<Rightarrow> l),
              uRate = 0.8, uPitch = 1, uVolume = 1, uVoice = None\<rparr>])
   \<and> ttsError (snd (useTextToSpeech_speak t lc e s)) = ttsError s"
proof -
  from assms(3) have np: "backendDecodes e \<longrightarrow> playRejects e"
    by (simp add: backendPlays_def)
  have sp: "speak t options e s = speakBody t r e s"
    using assms(1) by (rule speak_Inr)
  have lang: "utteranceLang lc =
      (case lc of ArgUndefined \<Rightarrow> ''en-US'' | ArgNull \<Rightarrow> ''null'' | ArgValue l \<Rightarrow> l)"
    by (simp add: utteranceLang_def)
  show ?thesis
    using assms(2,3) np
    by (simp add: sp speakBody_fst speakBody_audios speakBody_objectUrls speakBody_synthQueue
        speakBody_ttsError speakBody_isSpeaking utterance_onend_def
        useTextToSpeech_speak_fst useTextToSpeech_speak_audios
        useTextToSpeech_speak_synthQueue useTextToSpeech_speak_ttsError lang)
qed

theorem backend_failure_falls_back_witness:
  "destructure (ArgValue \<lparr>languageCode = Some ''en-US'', rate = Some 0.9,
       pitch = None, volume = None, useBackend = Some True\<rparr>)
     = Inr \<lparr>reqLanguageCode = ''en-US'', reqRate = 0.9, reqPitch = 1, reqVolume = 1,
            reqUseBackend = True\<rparr>
   \<and> \<not> backendPlays \<lparr>fetchResult = FetchRejected, atobThrows = False, playRejects = False\<rparr>
   \<and> synthQueue (snd (speak ''Hi'' (ArgValue \<lparr>languageCode = Some ''en-US'', rate = Some 0.9,
       pitch = None, volume = None, useBackend = Some True\<rparr>)
       \<lparr>fetchResult = FetchRejected, atobThrows = False, playRejects = False\<rparr>
       (initialTts True [])))
     = [\<lparr>uText = ''Hi'', uLang = ''en-US'', uRate = 0.9, uPitch = 1, uVolume = 1,
         uVoice = None\<rparr>]
   \<and> ttsError (snd (speak ''Hi'' (ArgValue \<lparr>languageCode = Some ''en-US'', rate = Some 0.9,
       pitch = None, volume = None, useBackend = Some True\<rparr>)
       \<lparr>fetchResult = FetchRejected, atobThrows = False, playRejects = False\<rparr>
       (initialTts True []))) = None
   \<and> synthQueue (snd (useTextToSpeech_speak ''Hi'' ArgUndefined
       \<lparr>fetchResult = FetchRejected, atobThrows = False, playRejects = False\<rparr>
       (initialTts True [])))
     = [\<lparr>uText = ''Hi'', uLang = ''en-US'', uRate = 0.8, uPitch = 1, uVolume = 1,
         uVoice = None\<rparr>]
   \<and> \<not> backendPlays \<lparr>fetchResult = FetchResponse False (JsonOk (Some ''QUJD'')),
         atobThrows = False, playRejects = False\<rparr>
   \<and> synthQueue (snd (speak ''Hi'' (ArgValue \<lparr>languageCode = Some ''en-US'', rate = Some 0.9,
       pitch = None, volume = None, useBackend = Some True\<rparr>)
       \<lparr>fetchResult = FetchResponse False (JsonOk (Some ''QUJD'')),
         atobThrows = False, playRejects = False\<rparr>
       (initialTts True [])))
     = [\<lparr>uText = ''Hi'', uLang = ''en-US'', uRate = 0.9, uPitch = 1, uVolume = 1,
         uVoice = None\<rparr>]
   \<and> \<not> backendPlays \<lparr>fetchResult = FetchResponse True (JsonOk None),
         atobThrows = False, playRejects = False\<rparr>
   \<and> synthQueue (snd (speak ''Hi'' (ArgValue \<lparr>languageCode = Some ''en-US'', rate = Some 0.9,
       pitch = None, volume = None, useBackend = Some True\<rparr>)
       \<lparr>fetchResult = FetchResponse True (JsonOk None),
         atobThrows = False, playRejects = False\<rparr>
       (initialTts True [])))
     = [\<lparr>uText = ''Hi'', uLang = ''en-US'', uRate = 0.9, uPitch = 1, uVolume = 1,
         uVoice = None\<rparr>]
   \<and> \<not> backendPlays \<lparr>fetchResult = FetchResponse True JsonError,
         atobThrows = False, playRejects = False\<rparr>
   \<and> synthQueue (snd (speak ''Hi'' (ArgValue \<lparr>languageCode = Some ''en-US'', rate = Some 0.9,
       pitch = None, volume = None, useBackend = Some True\<rparr>)
       \<lparr>fetchResult = FetchResponse True JsonError,
         atobThrows = False, playRejects = False\<rparr>
       (initialTts True [])))
     = [\<lparr>uText = ''Hi'', uLang = ''en-US'', uRate = 0.9, uPitch = 1, uVolume = 1,
         uVoice = None\<rparr>]
   \<and> \<not> backendPlays \<lparr>fetchResult = FetchResponse True (JsonOk (Some ''QUJD'')),
         atobThrows = True, playRejects = False\<rparr>
   \<and> synthQueue (snd (speak ''Hi'' (ArgValue \<lparr>languageCode = Some ''en-US'', rate = Some 0.9,
       pitch = None, volume = None, useBackend = Some True\<rparr>)
       \<lparr>fetchResult = FetchResponse True (JsonOk (Some ''QUJD'')),
         atobThrows = True, playRejects = False\<rparr>
       (initialTts True [])))
     = [\<lparr>uText = ''Hi'', uLang = ''en-US'', uRate = 0.9, uPitch = 1, uVolume = 1,
         uVoice = None\<rparr>]
   \<and> \<not> backendPlays \<lparr>fetchResult = FetchResponse True (JsonOk (Some ''QUJD'')),
         atobThrows = False, playRejects = True\<rparr>
   \<and> synthQueue (snd (speak ''Hi'' (ArgValue \<lparr>languageCode = Some ''en-US'', rate = Some 0.9,
       pitch = None, volume = None, useBackend = Some True\<rparr>)
       \<lparr>fetchResult = FetchResponse True (JsonOk (Some ''QUJD'')),
         atobThrows = False, playRejects = True\<rparr>
       (initialTts True [])))
     = [\<lparr>uText = ''Hi'', uLang = ''en-US'', uRate = 0.9, uPitch = 1, uVolume = 1,
         uVoice = None\<rparr>]
   \<and> \<not> hasSpeechSynthesis (initialTts False [])
   \<and> ttsError (snd (speak ''Hi'' (ArgValue \<lparr>languageCode = Some ''en-US'', rate = Some 0.9,
       pitch = None, volume = None, useBackend = Some True\<rparr>)
       \<lparr>fetchResult = FetchRejected, atobThrows = False, playRejects = False\<rparr>
       (initialTts False []))) = Some ''Text-to-speech not supported in this browser''"
  using backend_failure_falls_back
      [where options = "ArgValue \<lparr>languageCode = Some ''en-US'', rate = Some 0.9,
              pitch = None, volume = None, useBackend = Some True\<rparr>"
         and r = "\<lparr>reqLanguageCode = ''en-US'', reqRate = 0.9, reqPitch = 1, reqVolume = 1,
            reqUseBackend = True\<rparr>"
         and e = "\<lparr>fetchResult = FetchRejected, atobThrows = False, playRejects = False\<rparr>"
         and t = "''Hi''" and s = "initialTts True []" and lc = ArgUndefined]
    backend_failure_falls_back
      [where options = "ArgValue \<lparr>languageCode = Some ''en-US'', rate = Some 0.9,
              pitch = None, volume = None, useBackend = Some True\<rparr>"
         and r = "\<lparr>reqLanguageCode = ''en-US'', reqRate = 0.9, reqPitch = 1, reqVolume = 1,
            reqUseBackend = True\<rparr>"
         and e = "\<lparr>fetchResult = FetchResponse False (JsonOk (Some ''QUJD'')),
            atobThrows = False, playRejects = False\<rparr>"
         and t = "''Hi''" and s = "initialTts True []" and lc = ArgUndefined]
    backend_failure_falls_back
      [where options = "ArgValue \<lparr>languageCode = Some ''en-US'', rate = Some 0.9,
              pitch = None, volume = None, useBackend = Some True\<rparr>"
         and r = "\<lparr>reqLanguageCode = ''en-US'', reqRate = 0.9, reqPitch = 1, reqVolume = 1,
            reqUseBackend = True\<rparr>"
         and e = "\<lparr>fetchResult = FetchResponse True (JsonOk None),
            atobThrows = False, playRejects = False\<rparr>"
         and t = "''Hi''" and s = "initialTts True []" and lc = ArgUndefined]
    backend_failure_falls_back
      [where options = "ArgValue \<lparr>languageCode = Some ''en-US'', rate = Some 0.9,
              pitch = None, volume = None, useBackend = Some True\<rparr>"
         and r = "\<lparr>reqLanguageCode = ''en-US'', reqRate = 0.9, reqPitch = 1, reqVolume = 1,
            reqUseBackend = True\<rparr>"
         and e = "\<lparr>fetchResult = FetchResponse True JsonError,
            atobThrows = False, playRejects = False\<rparr>"
         and t = "''Hi''" and s = "initialTts True []" and lc = ArgUndefined]
    backend_failure_falls_back
      [where options = "ArgValue \<lparr>languageCode = Some ''en-US'', rate = Some 0.9,
              pitch = None, volume = None, useBackend = Some True\<rparr>"
         and r = "\<lparr>reqLanguageCode = ''en-US'', reqRate = 0.9, reqPitch = 1, reqVolume = 1,
            reqUseBackend = True\<rparr>"
         and e = "\<lparr>fetchResult = FetchResponse True (JsonOk (Some ''QUJD'')),
            atobThrows = True, playRejects = False\<rparr>"
         and t = "''Hi''" and s = "initialTts True []" and lc = ArgUndefined]
    backend_failure_falls_back
      [where options = "ArgValue \<lparr>languageCode = Some ''en-US'', rate = Some 0.9,
              pitch = None, volume = None, useBackend = Some True\<rparr>"
         and r = "\<lparr>reqLanguageCode = ''en-US'', reqRate = 0.9, reqPitch = 1, reqVolume = 1,
            reqUseBackend = True\<rparr>"
         and e = "\<lparr>fetchResult = FetchResponse True (JsonOk (Some ''QUJD'')),
            atobThrows = False, playRejects = True\<rparr>"
         and t = "''Hi''" and s = "initialTts True []" and lc = ArgUndefined]
    backend_failure_falls_back
      [where options = "ArgValue \<lparr>languageCode = Some ''en-US'', rate = Some 0.9,
              pitch = None, volume = None, useBackend = Some True\<rparr>"
         and r = "\<lparr>reqLanguageCode = ''en-US'', reqRate = 0.9, reqPitch = 1, reqVolume = 1,
            reqUseBackend = True\<rparr>"
         and e = "\<lparr>fetchResult = FetchRejected, atobThrows = False, playRejects = False\<rparr>"
         and t = "''Hi''" and s = "initialTts False []" and lc = ArgUndefined]
  by (simp add: destructure_def initialTts_def preferredVoice_def backendPlays_def
      backendDecodes_def)

subsection \<open>Voice selection\<close>

lemma find_filter_conv:
  "find P xs = (case filter P xs of [] \<Rightarrow> None | x # rest \<Rightarrow> Some x)"
  by (induction xs) auto

lemma preferredVoice_filter:
  "preferredVoice vs lc =
     (case filter (\<lambda>v. prefix (take 2 lc) (voiceLang v) \<and> sublist ''Google'' (voiceName v)) vs of
        v # rest \<Rightarrow> Some v
      | [] \<Rightarrow> (case filter (\<lambda>v. prefix (take 2 lc) (voiceLang v)) vs of
                 v # rest \<Rightarrow> Some v
               | [] \<Rightarrow> None))"
  by (simp add: preferredVoice_def find_filter_conv startsWith_def includes_str_def
      split: list.splits)

text \<open>
  C7: the voice \<open>speak\<close> looks for is the first voice, in the platform's order, whose
  language starts with the first two characters of the requested language code and
  whose name contains \<open>Google\<close>; when there is none, the first voice whose language
  starts with those two characters; when there is none either, no voice. Whenever
  \<open>speak\<close> reaches local synthesis, the utterance it hands to the browser carries
  exactly that voice, and is left with the platform default when no voice was found.
\<close>

theorem voice_selection_policy:
  "preferredVoice vs lc =
     (case filter (\<lambda>v. prefix (take 2 lc) (voiceLang v) \<and> sublist ''Google'' (voiceName v)) vs of
        v # rest \<Rightarrow> Some v
      | [] \<Rightarrow> (case filter (\<lambda>v. prefix (take 2 lc) (voiceLang v)) vs of
                 v # rest \<Rightarrow> Some v
               | [] \<Rightarrow> None))
   \<and> (destructure options = Inr r \<and> \<not> (reqUseBackend r \<and> backendPlays e)
        \<and> hasSpeechSynthesis s \<longrightarrow>
        uVoice (last (synthQueue (snd (speak t options e s))))
          = preferredVoice (voices s) (reqLanguageCode r))"
  by (auto simp add: preferredVoice_filter [symmetric] speak_Inr speakBody_synthQueue)

theorem voice_selection_policy_witness:
  "destructure (ArgValue \<lparr>languageCode = Some ''en-GB'', rate = None,
          pitch = None, volume = None, useBackend = Some False\<rparr>)
     = Inr \<lparr>reqLanguageCode = ''en-GB'', reqRate = 0.8, reqPitch = 1, reqVolume = 1,
            reqUseBackend = False\<rparr>
   \<and> hasSpeechSynthesis (initialTts True
        [\<lparr>voiceName = ''Microsoft David'', voiceLang = ''en-US''\<rparr>,
         \<lparr>voiceName = ''Google UK English Female'', voiceLang = ''en-GB''\<rparr>,
         \<lparr>voiceName = ''Google fran'', voiceLang = ''fr-FR''\<rparr>])
   \<and> uVoice (last (synthQueue (snd (speak ''Hi''
        (ArgValue \<lparr>languageCode = Some ''en-GB'', rate = None,
          pitch = None, volume = None, useBackend = Some False\<rparr>)
        \<lparr>fetchResult = FetchRejected, atobThrows = False, playRejects = False\<rparr>
        (initialTts True
          [\<lparr>voiceName = ''Microsoft David'', voiceLang = ''en-US''\<rparr>,
           \<lparr>voiceName = ''Google UK English Female'', voiceLang = ''en-GB''\<rparr>,
           \<lparr>voiceName = ''Google fran'', voiceLang = ''fr-FR''\<rparr>])))))
     = Some \<lparr>voiceName = ''Google UK English Female'', voiceLang = ''en-GB''\<rparr>"
  using voice_selection_policy
    [where vs = "[\<lparr>voiceName = ''Microsoft David'', voiceLang = ''en-US''\<rparr>,
          \<lparr>voiceName = ''Google UK English Female'', voiceLang = ''en-GB''\<rparr>,
          \<lparr>voiceName = ''Google fran'', voiceLang = ''fr-FR''\<rparr>]"
       and lc = "''en-GB''"
       and options = "ArgValue \<lparr>languageCode = Some ''en-GB'', rate = None,
          pitch = None, volume = None, useBackend = Some False\<rparr>"
       and r = "\<lparr>reqLanguageCode = ''en-GB'', reqRate = 0.8, reqPitch = 1, reqVolume = 1,
            reqUseBackend = False\<rparr>"
       and e = "\<lparr>fetchResult = FetchRejected, atobThrows = False, playRejects = False\<rparr>"
       and s = "initialTts True
          [\<lparr>voiceName = ''Microsoft David'', voiceLang = ''en-US''\<rparr>,
           \<lparr>voiceName = ''Google UK English Female'', voiceLang = ''en-GB''\<rparr>,
           \<lparr>voiceName = ''Google fran'', voiceLang = ''fr-FR''\<rparr>]"
       and t = "''Hi''"]
  by (simp add: destructure_def initialTts_def sublist_code(3))

lemma voice_examples:
  "preferredVoice
     [\<lparr>voiceName = ''Microsoft David'', voiceLang = ''en-US''\<rparr>,
      \<lparr>voiceName = ''Google fran'', voiceLang = ''fr-FR''\<rparr>] ''en-GB''
     = Some \<lparr>voiceName = ''Microsoft David'', voiceLang = ''en-US''\<rparr>"
  "preferredVoice
     [\<lparr>voiceName = ''Microsoft David'', voiceLang = ''en-US''\<rparr>,
      \<lparr>voiceName = ''Google fran'', voiceLang = ''fr-FR''\<rparr>] ''te-IN'' = None"
  by (simp_all add: preferredVoice_def startsWith_def includes_str_def sublist_code(3))

subsection \<open>The promise of \<open>speak\<close>\<close>




subsection \<open>Defaults of the options\<close>

text \<open>
  C10: without an options object, or with an options object that omits the field, the
  language code is \<open>en-US\<close>, the rate 0.8, the pitch 1.0, the volume 1.0, and the
  backend is preferred; a call without options does what a call with exactly these
  values does.
\<close>

theorem speak_option_defaults:
  "destructure ArgUndefined =
     Inr \<lparr>reqLanguageCode = ''en-US'', reqRate = 0.8, reqPitch = 1.0, reqVolume = 1.0,
          reqUseBackend = True\<rparr>
   \<and> destructure (ArgValue \<lparr>languageCode = None, rate = None, pitch = None, volume = None,
        useBackend = None\<rparr>) =
     Inr \<lparr>reqLanguageCode = ''en-US'', reqRate = 0.8, reqPitch = 1.0, reqVolume = 1.0,
          reqUseBackend = True\<rparr>
   \<and> (\<exists>r. destructure (ArgValue (opts\<lparr>languageCode := None\<rparr>)) = Inr r
          \<and> reqLanguageCode r = ''en-US'')
   \<and> (\<exists>r. destructure (ArgValue (opts\<lparr>rate := None\<rparr>)) = Inr r \<and> reqRate r = 0.8)
   \<and> (\<exists>r. destructure (ArgValue (opts\<lparr>pitch := None\<rparr>)) = Inr r \<and> reqPitch r = 1.0)
   \<and> (\<exists>r. destructure (ArgValue (opts\<lparr>volume := None\<rparr>)) = Inr r \<and> reqVolume r = 1.0)
   \<and> (\<exists>r. destructure (ArgValue (opts\<lparr>useBackend := None\<rparr>)) = Inr r \<and> reqUseBackend r)
   \<and> speak t ArgUndefined e s =
       speak t (ArgValue \<lparr>languageCode = Some ''en-US'', rate = Some 0.8, pitch = Some 1.0,
                         volume = Some 1.0, useBackend = Some True\<rparr>) e s"
  by (simp add: destructure_def speak_def)

end
